theory Spec2Isabelle
  imports Main
begin

section \<open>Python values\<close>

text \<open>
  A Python \<open>str\<close> is a sequence of Unicode code points, so \<open>len\<close> and slicing count
  code points; the model keeps them as natural numbers. \<open>ascii\<close> writes an ASCII literal.
\<close>

type_synonym pystr = "nat list"

definition ascii :: "string \<Rightarrow> pystr" where
  "ascii s = map of_char s"

text \<open>
  A Python \<open>float\<close> is kept exactly: \<open>Finite m e\<close> stands for \<open>m * 2 ^ e\<close>, and the
  three special values are separate. \<open>Infinite neg\<close> is \<open>-inf\<close> when \<open>neg\<close> holds.
\<close>

datatype pyfloat = Finite int int | Infinite bool | NaN

text \<open>
  The values \<open>resp.json()\<close> can produce. A \<open>dict\<close> is kept as the list of its items;
  a lookup finds the first binding of the key.
\<close>

datatype pyval =
    PNone
  | PBool bool
  | PInt int
  | PFloat pyfloat
  | PStr pystr
  | PList "pyval list"
  | PDict "(pystr \<times> pyval) list"

datatype py_exn = AttributeError | TypeError | ValueError | OverflowError

text \<open>Truth value of an object, as \<open>if x\<close> and \<open>not x\<close> test it.\<close>

fun truthy :: "pyval \<Rightarrow> bool" where
  "truthy PNone = False"
| "truthy (PBool b) = b"
| "truthy (PInt n) = (n \<noteq> 0)"
| "truthy (PFloat (Finite m e)) = (m \<noteq> 0)"
| "truthy (PFloat (Infinite neg)) = True"
| "truthy (PFloat NaN) = True"
| "truthy (PStr s) = (s \<noteq> [])"
| "truthy (PList xs) = (xs \<noteq> [])"
| "truthy (PDict d) = (d \<noteq> [])"

text \<open>\<open>d.get(key, default)\<close> on a dict.\<close>

definition dict_get :: "(pystr \<times> pyval) list \<Rightarrow> pystr \<Rightarrow> pyval \<Rightarrow> pyval" where
  "dict_get d key dflt = (case map_of d key of None \<Rightarrow> dflt | Some v \<Rightarrow> v)"

text \<open>
  \<open>x.get(key, default)\<close> on any value: only a dict has the method, every other JSON value
  raises \<open>AttributeError\<close>.
\<close>

fun py_get :: "pyval \<Rightarrow> pystr \<Rightarrow> pyval \<Rightarrow> py_exn + pyval" where
  "py_get (PDict d) key dflt = Inr (dict_get d key dflt)"
| "py_get _ key dflt = Inl AttributeError"

text \<open>
  \<open>for row in x\<close>: a list yields its elements, a dict its keys, a str its characters;
  \<open>None\<close> and numbers are not iterable.
\<close>

fun py_iter :: "pyval \<Rightarrow> py_exn + pyval list" where
  "py_iter (PList xs) = Inr xs"
| "py_iter (PDict d) = Inr (map (\<lambda>kv. PStr (fst kv)) d)"
| "py_iter (PStr s) = Inr (map (\<lambda>c. PStr [c]) s)"
| "py_iter _ = Inl TypeError"

text \<open>\<open>s[i:j]\<close> for \<open>0 \<le> i \<le> j\<close>: slicing clips at the end of the string and never raises.\<close>

definition py_slice :: "pystr \<Rightarrow> nat \<Rightarrow> nat \<Rightarrow> pystr" where
  "py_slice s i j = take (j - i) (drop i s)"

section \<open>The builtins \<open>str\<close> and \<open>int\<close>\<close>

text \<open>
  \<open>sys.int_info.default_max_str_digits\<close>: converting between \<open>int\<close> and \<open>str\<close> raises
  \<open>ValueError\<close> beyond this many decimal digits (CPython 3.11).
\<close>

definition int_max_str_digits :: nat where
  "int_max_str_digits = 4300"

function digits10 :: "nat \<Rightarrow> pystr" where
  "digits10 n = (if n < 10 then [48 + n] else digits10 (n div 10) @ [48 + n mod 10])"
  by pat_completeness auto
termination
  by (relation "measure id") auto

declare digits10.simps [simp del]

text \<open>The decimal text of an integer, without the digit limit.\<close>

definition repr_int :: "int \<Rightarrow> pystr" where
  "repr_int n = (if n < 0 then 45 # digits10 (nat (- n)) else digits10 (nat n))"

text \<open>\<open>str(n)\<close> for an \<open>int\<close>.\<close>

definition py_str_int :: "int \<Rightarrow> py_exn + pystr" where
  "py_str_int n =
     (if length (digits10 (nat \<bar>n\<bar>)) > int_max_str_digits then Inl ValueError
      else Inr (repr_int n))"

text \<open>
  \<open>int(s)\<close> for a \<open>str\<close> reads: optional whitespace, an optional sign, decimal digits
  with single underscores between them, optional whitespace. The whitespace is the ASCII
  whitespace of the C parser and the Unicode whitespace above U+007F; the digits are the
  Unicode decimal digits (category Nd, Unicode 14.0 as in CPython 3.11), which come in
  runs of ten starting at the code points below.
\<close>

definition int_space :: "nat \<Rightarrow> bool" where
  "int_space c \<longleftrightarrow>
     c \<in> set [9, 10, 11, 12, 13, 32, 133, 160, 5760, 8192, 8193, 8194, 8195, 8196, 8197,
               8198, 8199, 8200, 8201, 8202, 8232, 8233, 8239, 8287, 12288]"

definition decimal_zeros :: "nat list" where
  "decimal_zeros =
     [48, 1632, 1776, 1984, 2406, 2534, 2662, 2790, 2918, 3046, 3174, 3302, 3430, 3558,
      3664, 3792, 3872, 4160, 4240, 6112, 6160, 6470, 6608, 6784, 6800, 6992, 7088, 7232,
      7248, 42528, 43216, 43264, 43472, 43504, 43600, 44016, 65296, 66720, 68912, 69734,
      69872, 69942, 70096, 70384, 70736, 70864, 71248, 71360, 71472, 71904, 72016, 72784,
      73040, 73120, 92768, 92864, 93008, 120782, 120792, 120802, 120812, 120822, 123200,
      123632, 125264, 130032]"

definition digit_value :: "nat \<Rightarrow> nat option" where
  "digit_value c =
     (case find (\<lambda>z. z \<le> c \<and> c < z + 10) decimal_zeros of
        None \<Rightarrow> None
      | Some z \<Rightarrow> Some (c - z))"

text \<open>
  The digit scan: \<open>prev\<close> is the character before, \<open>cnt\<close> the digits read and \<open>acc\<close>
  their value. It stops at the first character that is neither a digit nor an underscore
  and fails on a doubled or trailing underscore.
\<close>

fun scan_digits :: "nat \<Rightarrow> pystr \<Rightarrow> nat \<Rightarrow> nat \<Rightarrow> (nat \<times> nat \<times> pystr) option" where
  "scan_digits prev [] cnt acc = (if prev = 95 then None else Some (cnt, acc, []))"
| "scan_digits prev (c # cs) cnt acc =
     (if c = 95 then (if prev = 95 then None else scan_digits c cs cnt acc)
      else case digit_value c of
             Some d \<Rightarrow> scan_digits c cs (Suc cnt) (10 * acc + d)
           | None \<Rightarrow> if prev = 95 then None else Some (cnt, acc, c # cs))"

fun split_sign :: "pystr \<Rightarrow> bool \<times> pystr" where
  "split_sign [] = (False, [])"
| "split_sign (c # r) =
     (if c = 45 then (True, r) else if c = 43 then (False, r) else (False, c # r))"

definition int_of_str :: "pystr \<Rightarrow> py_exn + int" where
  "int_of_str s =
     (case split_sign (dropWhile int_space s) of
        (negative, u) \<Rightarrow>
          (case u of
             [] \<Rightarrow> Inl ValueError
           | c # _ \<Rightarrow>
               (if digit_value c = None then Inl ValueError
                else (case scan_digits 0 u 0 0 of
                        None \<Rightarrow> Inl ValueError
                      | Some (cnt, n, rest) \<Rightarrow>
                          (if cnt > int_max_str_digits then Inl ValueError
                           else if dropWhile int_space rest \<noteq> [] then Inl ValueError
                           else Inr (if negative then - int n else int n))))))"

text \<open>\<open>int(x)\<close> for a \<open>float\<close> truncates towards zero.\<close>

fun int_of_float :: "pyfloat \<Rightarrow> py_exn + int" where
  "int_of_float (Finite m e) =
     Inr (if 0 \<le> e then m * 2 ^ nat e
          else if 0 \<le> m then m div 2 ^ nat (- e)
          else - ((- m) div 2 ^ nat (- e)))"
| "int_of_float (Infinite neg) = Inl OverflowError"
| "int_of_float NaN = Inl ValueError"

text \<open>\<open>int(x)\<close> on a JSON value.\<close>

fun py_int :: "pyval \<Rightarrow> py_exn + int" where
  "py_int PNone = Inl TypeError"
| "py_int (PBool b) = Inr (if b then 1 else 0)"
| "py_int (PInt n) = Inr n"
| "py_int (PFloat f) = int_of_float f"
| "py_int (PStr s) = int_of_str s"
| "py_int (PList xs) = Inl TypeError"
| "py_int (PDict d) = Inl TypeError"

section \<open>The record normalizer: \<open>CustomsQuery._parse_json_list\<close>\<close>

text \<open>The dict built for one row. The three passthrough fields keep whatever the row holds.\<close>

record item =
  so_no :: pyval
  decl_no :: pyval
  vsl_name :: pyval
  qty :: pystr
  date :: pystr
  query_code :: pystr

text \<open>The literals of the source: U+5C1A U+7121 U+6642 U+9593, and U+7121 followed by \<open> S/O\<close>.\<close>

definition no_date :: pystr where
  "no_date = [23578, 28961, 26178, 38291]"

definition no_so :: pystr where
  "no_so = [28961, 32, 83, 47, 79]"

definition key_inWareDate1 :: pystr where "key_inWareDate1 = ascii ''inWareDate1''"
definition key_packQty1 :: pystr where "key_packQty1 = ascii ''packQty1''"
definition key_soNo :: pystr where "key_soNo = ascii ''soNo''"
definition key_declNo :: pystr where "key_declNo = ascii ''declNo''"
definition key_vslName :: pystr where "key_vslName = ascii ''vslName''"

text \<open>
  The body of the \<open>try\<close> that formats the date. Slicing a \<open>str\<close> and joining the pieces
  cannot raise, so the result is always \<open>Inr\<close> and the handler of the source is dead.
\<close>

definition format_date :: "pystr \<Rightarrow> py_exn + pystr" where
  "format_date raw_date =
     (let yyyy = py_slice raw_date 0 4;
          mm = py_slice raw_date 4 6;
          dd = py_slice raw_date 6 8;
          hh = py_slice raw_date 9 11;
          minute = py_slice raw_date 11 13
      in Inr (yyyy @ [47] @ mm @ [47] @ dd @ [32] @ hh @ [58] @ minute))"

definition fmt_date_of :: "pyval \<Rightarrow> pystr" where
  "fmt_date_of raw_date =
     (case raw_date of
        PStr s \<Rightarrow>
          if s \<noteq> [] \<and> length s \<ge> 12
          then (case format_date s of Inr d \<Rightarrow> d | Inl _ \<Rightarrow> s)
          else no_date
      | _ \<Rightarrow> no_date)"

definition qty_str_of :: "pyval \<Rightarrow> pystr" where
  "qty_str_of q =
     (if q \<noteq> PNone
      then (case py_int q of
              Inl _ \<Rightarrow> ascii ''0''
            | Inr n \<Rightarrow> (case py_str_int n of Inl _ \<Rightarrow> ascii ''0'' | Inr t \<Rightarrow> t))
      else ascii ''0'')"

text \<open>The item the loop body builds from a row that is a dict.\<close>

definition row_item :: "pystr option \<Rightarrow> (pystr \<times> pyval) list \<Rightarrow> item" where
  "row_item qc row =
     (let raw_date = dict_get row key_inWareDate1 PNone;
          fmt_date = fmt_date_of raw_date;
          q = dict_get row key_packQty1 PNone;
          qty_str = qty_str_of q
      in \<lparr> so_no = dict_get row key_soNo (PStr no_so),
           decl_no = dict_get row key_declNo (PStr []),
           vsl_name = dict_get row key_vslName (PStr []),
           qty = qty_str,
           date = fmt_date,
           query_code = (case qc of None \<Rightarrow> [] | Some c \<Rightarrow> c) \<rparr>)"

text \<open>
  One pass of the loop body. \<open>row.get\<close> is the first thing it does, so a row that is not
  a dict raises \<open>AttributeError\<close>; for a dict nothing escapes.
\<close>

fun parse_row :: "pystr option \<Rightarrow> pyval \<Rightarrow> py_exn + item" where
  "parse_row qc (PDict row) = Inr (row_item qc row)"
| "parse_row qc _ = Inl AttributeError"

text \<open>The \<open>for\<close> loop: \<open>results\<close> grows by one item per row; an exception leaves the loop.\<close>

fun parse_rows :: "pystr option \<Rightarrow> pyval list \<Rightarrow> item list \<Rightarrow> py_exn + item list" where
  "parse_rows qc [] results = Inr results"
| "parse_rows qc (row # rest) results =
     (case parse_row qc row of
        Inl e \<Rightarrow> Inl e
      | Inr it \<Rightarrow> parse_rows qc rest (results @ [it]))"

definition parse_json_list :: "pyval \<Rightarrow> pystr option \<Rightarrow> py_exn + item list" where
  "parse_json_list raw_list qc =
     (case py_iter raw_list of
        Inl e \<Rightarrow> Inl e
      | Inr rows \<Rightarrow> parse_rows qc rows [])"

section \<open>The pagination engine: \<open>CustomsQuery.fetch_data\<close>\<close>

text \<open>
  What \<open>session.post\<close> can do: raise (the text of the exception is kept), or return a
  response with its status code, its text, and what \<open>resp.json()\<close> gives for it: the
  decoded value, or the text of the exception it raises.
\<close>

record http_response =
  status_code :: int
  resp_text :: pystr
  resp_json :: "pystr + pyval"

datatype post_result = PostRaised pystr | PostReturned http_response

text \<open>
  The two shapes of dict the function returns in a list: the error dict, with its
  optional \<open>raw\<close> entry, and the item dict of the normalizer.
\<close>

datatype result_dict = ErrorDict pystr "pystr option" | ItemDict item

definition key_total :: pystr where "key_total = ascii ''total''"
definition key_data :: pystr where "key_data = ascii ''data''"

text \<open>The three message prefixes of the source, as code points.\<close>

definition connection_failed :: pystr where
  "connection_failed = [36899, 32218, 22833, 25943, 65306]"

definition server_error :: pystr where
  "server_error = [20282, 26381, 22120, 37679, 35492, 65306, 72, 84, 84, 80, 32]"

definition parse_error :: pystr where
  "parse_error = [36039, 26009, 35299, 26512, 37679, 35492, 65306]"

text \<open>
  \<open>n >= total_count\<close> for the \<open>int\<close> \<open>n = len(all_results)\<close>: exact against a number,
  \<open>TypeError\<close> against \<open>None\<close>, a str, a list or a dict.
\<close>

fun py_int_ge :: "int \<Rightarrow> pyval \<Rightarrow> py_exn + bool" where
  "py_int_ge n (PInt t) = Inr (t \<le> n)"
| "py_int_ge n (PBool b) = Inr ((if b then 1 else 0) \<le> n)"
| "py_int_ge n (PFloat (Finite m e)) =
     Inr (if 0 \<le> e then m * 2 ^ nat e \<le> n else m \<le> n * 2 ^ nat (- e))"
| "py_int_ge n (PFloat (Infinite neg)) = Inr neg"
| "py_int_ge n (PFloat NaN) = Inr False"
| "py_int_ge n _ = Inl TypeError"

text \<open>
  One pass of the \<open>while True\<close> body, given what the POST of this page did and the
  list accumulated so far. \<open>Return\<close> is a \<open>return\<close>, a \<open>break\<close> (which returns
  \<open>all_results\<close>) or an exception that leaves the function; \<open>Continue\<close> reaches the
  end of the body with the new list. The progress callback and the sleep change nothing
  here and are left out.
\<close>

datatype step = Return "py_exn + result_dict list" | Continue "result_dict list"

definition page_step :: "post_result \<Rightarrow> pystr option \<Rightarrow> result_dict list \<Rightarrow> step" where
  "page_step posted qc all_results =
     (case posted of
        PostRaised e \<Rightarrow>
          if all_results = [] then Return (Inr [ErrorDict (connection_failed @ e) None])
          else Return (Inr all_results)
      | PostReturned resp \<Rightarrow>
          if status_code resp \<noteq> 200 then
            (if all_results = []
             then Return (Inr [ErrorDict (server_error @ repr_int (status_code resp)) None])
             else Return (Inr all_results))
          else
            (case resp_json resp of
               Inl e \<Rightarrow>
                 if all_results = []
                 then Return (Inr [ErrorDict (parse_error @ e)
                                     (Some (py_slice (resp_text resp) 0 200))])
                 else Return (Inr all_results)
             | Inr json_data \<Rightarrow>
                 (case py_get json_data key_total (PInt 0) of
                    Inl x \<Rightarrow> Return (Inl x)
                  | Inr total_count \<Rightarrow>
                      (case py_get json_data key_data (PList []) of
                         Inl x \<Rightarrow> Return (Inl x)
                       | Inr raw_data \<Rightarrow>
                           if \<not> truthy raw_data then Return (Inr all_results)
                           else
                             (case parse_json_list raw_data qc of
                                Inl x \<Rightarrow> Return (Inl x)
                              | Inr parsed_page \<Rightarrow>
                                  (case py_int_ge
                                          (int (length (all_results @ map ItemDict parsed_page)))
                                          total_count of
                                     Inl x \<Rightarrow> Return (Inl x)
                                   | Inr reached \<Rightarrow>
                                       if reached
                                       then Return (Inr (all_results @ map ItemDict parsed_page))
                                       else Continue (all_results @ map ItemDict parsed_page)))))))"

text \<open>
  The loop. \<open>post\<close> gives, for each page number, what the POST of that page does; in one
  run each page is requested once, in order, so this covers every behaviour of the
  server. The loop has no bound of its own: \<open>fuel\<close> counts the page requests, and
  \<open>None\<close> says that the loop is still running when they are used up.
\<close>

fun fetch_pages ::
  "nat \<Rightarrow> (nat \<Rightarrow> post_result) \<Rightarrow> pystr option \<Rightarrow> nat \<Rightarrow> result_dict list
     \<Rightarrow> (py_exn + result_dict list) option" where
  "fetch_pages 0 post qc current_page all_results = None"
| "fetch_pages (Suc fuel) post qc current_page all_results =
     (case page_step (post current_page) qc all_results of
        Return r \<Rightarrow> Some r
      | Continue all_results' \<Rightarrow> fetch_pages fuel post qc (current_page + 1) all_results')"

text \<open>\<open>if query_code is None: query_code = vsl_reg_no\<close>.\<close>

definition run_code :: "pystr \<Rightarrow> pystr option \<Rightarrow> pystr" where
  "run_code vsl_reg_no qcode = (case qcode of None \<Rightarrow> vsl_reg_no | Some c \<Rightarrow> c)"

text \<open>
  \<open>fetch_data\<close>: the warm-up GET swallows its own failure and has no part in the result;
  the loop starts at page 1 with the empty list.
\<close>

definition fetch_data ::
  "nat \<Rightarrow> (nat \<Rightarrow> post_result) \<Rightarrow> pystr \<Rightarrow> pystr option
     \<Rightarrow> (py_exn + result_dict list) option" where
  "fetch_data fuel post vsl_reg_no qcode =
     fetch_pages fuel post (Some (run_code vsl_reg_no qcode)) 1 []"

text \<open>
  The list accumulated when the loop has passed \<open>k\<close> pages and goes on to page \<open>k + 1\<close>;
  \<open>None\<close> when the run has ended before.
\<close>

fun pages_so_far ::
  "(nat \<Rightarrow> post_result) \<Rightarrow> pystr \<Rightarrow> pystr option \<Rightarrow> nat \<Rightarrow> result_dict list option" where
  "pages_so_far post vsl_reg_no qcode 0 = Some []"
| "pages_so_far post vsl_reg_no qcode (Suc k) =
     (case pages_so_far post vsl_reg_no qcode k of
        None \<Rightarrow> None
      | Some acc \<Rightarrow>
          (case page_step (post (Suc k)) (Some (run_code vsl_reg_no qcode)) acc of
             Return r \<Rightarrow> None
           | Continue acc' \<Rightarrow> Some acc'))"

text \<open>An \<open>Ok\<close> result holds item dicts only.\<close>

fun is_item :: "result_dict \<Rightarrow> bool" where
  "is_item (ItemDict it) = True"
| "is_item (ErrorDict msg raw) = False"

text \<open>
  A reported total that the count \<open>N\<close> reaches: \<open>N >= total\<close> does not answer \<open>False\<close>
  (it answers \<open>True\<close>, or raises because the total is no number).
\<close>

definition total_at_most :: "nat \<Rightarrow> pyval \<Rightarrow> bool" where
  "total_at_most N t \<longleftrightarrow> py_int_ge (int N) t \<noteq> Inr False"

text \<open>A 200 response whose JSON body is the given value.\<close>

definition ok_response :: "pyval \<Rightarrow> post_result" where
  "ok_response v = PostReturned \<lparr> status_code = 200, resp_text = [], resp_json = Inr v \<rparr>"

text \<open>
  A server that answers every page with one row and the total \<open>1e999\<close>, which JSON
  decoding turns into \<open>inf\<close>.
\<close>

definition post_forever :: "nat \<Rightarrow> post_result" where
  "post_forever page =
     ok_response (PDict [(key_total, PFloat (Infinite False)), (key_data, PList [PDict []])])"

text \<open>
  Servers for the examples. The first answers pages 1 and 2 with 500 rows and the total
  1200 and then times out; the next two fail at once, with status 503 and with a body
  that is no JSON; the fourth always answers one row and the total 3.
\<close>

definition post_two_then_down :: "nat \<Rightarrow> post_result" where
  "post_two_then_down page =
     (if page \<le> 2
      then ok_response (PDict [(key_total, PInt 1200),
                               (key_data, PList (replicate 500 (PDict [])))])
      else PostRaised (ascii ''timed out''))"

definition post_503 :: "nat \<Rightarrow> post_result" where
  "post_503 page =
     PostReturned \<lparr> status_code = 503, resp_text = ascii ''Service Unavailable'',
                     resp_json = Inl (ascii ''Expecting value'') \<rparr>"

definition post_html :: "nat \<Rightarrow> post_result" where
  "post_html page =
     PostReturned \<lparr> status_code = 200, resp_text = ascii ''<html>'',
                     resp_json = Inl (ascii ''Expecting value'') \<rparr>"

definition post_total_3 :: "nat \<Rightarrow> post_result" where
  "post_total_3 page = ok_response (PDict [(key_total, PInt 3), (key_data, PList [PDict []])])"

text \<open>
  Two more: after a first page of one row out of five, the second page is the JSON
  object \<open>{}\<close>, or an object with one row and no \<open>total\<close>.
\<close>

definition post_then_empty_object :: "nat \<Rightarrow> post_result" where
  "post_then_empty_object page =
     (if page = 1
      then ok_response (PDict [(key_total, PInt 5), (key_data, PList [PDict []])])
      else ok_response (PDict []))"

definition post_then_no_total :: "nat \<Rightarrow> post_result" where
  "post_then_no_total page =
     (if page = 1
      then ok_response (PDict [(key_total, PInt 5), (key_data, PList [PDict []])])
      else ok_response (PDict [(key_data, PList [PDict []])]))"

section \<open>The orchestrator: \<open>task\<close> in \<open>start_query\<close>\<close>

text \<open>
  What the closure leaves behind: the status line, the buffer \<open>all_results\<close> that the
  local filter reads, and what the result list was last made to show: the argument of
  \<open>show_results\<close>, the filtered view of the buffer that \<open>apply_filter\<close> draws, or the
  text of an exception that reached the handler of \<open>task\<close>.
\<close>

datatype shown = Show_results "result_dict list" | Apply_filter | Unexpected py_exn

record ui =
  status_text :: pystr
  all_results :: "result_dict list"
  result_list :: shown

text \<open>The literals of \<open>task\<close>, as code points.\<close>

definition south_label :: pystr where
  "south_label = [21335, 25499, 32]"

definition north_label :: pystr where
  "north_label = [21271, 25499, 32]"

definition query_failed :: pystr where
  "query_failed = [32, 26597, 35426, 22833, 25943, 65306]"

definition separator :: pystr where
  "separator = [65307]"

definition status_failed :: pystr where
  "status_failed = [26597, 35426, 22833, 25943, 65292, 35531, 31245, 24460, 20877, 35430]"

definition status_no_data :: pystr where
  "status_no_data = [26597, 35426, 23436, 25104, 65306, 26597, 28961, 36039, 26009]"

definition status_done :: pystr where
  "status_done = [26597, 35426, 23436, 25104, 65292, 20849, 32]"

definition partial_suffix :: pystr where
  "partial_suffix = [32, 31558, 36039, 26009, 65288, 20294, 26377, 37096, 20998, 25499,
                     34399, 26597, 35426, 22833, 25943, 65289]"

definition plain_suffix :: pystr where
  "plain_suffix = [32, 31558, 36039, 26009]"

definition status_unexpected :: pystr where
  "status_unexpected = [26597, 35426, 36942, 31243, 30332, 29983, 26410, 38928, 26399,
                        37679, 35492]"

text \<open>\<open>sep.join(xs)\<close>.\<close>

fun py_join :: "pystr \<Rightarrow> pystr list \<Rightarrow> pystr" where
  "py_join sep [] = []"
| "py_join sep [x] = x"
| "py_join sep (x # y # ys) = x @ sep @ py_join sep (y # ys)"

text \<open>
  What is done with the list one run returned: when its first element is an error dict,
  the message, with the label and the code in front, joins \<open>error_messages\<close>; otherwise
  the list is appended to \<open>combined_results\<close>.
\<close>

definition collect ::
  "pystr \<Rightarrow> pystr \<Rightarrow> result_dict list \<Rightarrow> result_dict list \<times> pystr list
     \<Rightarrow> result_dict list \<times> pystr list" where
  "collect label code data st =
     (case st of (combined_results, error_messages) \<Rightarrow>
        (case data of
           ErrorDict err raw # rest \<Rightarrow>
             (combined_results, error_messages @ [label @ code @ query_failed @ err])
         | _ \<Rightarrow> (combined_results @ data, error_messages)))"

text \<open>
  The block for one call sign: skipped when the code is empty, else one run of
  \<open>fetch_data\<close> with the code as \<open>query_code\<close>. An exception of the run goes on to the
  handler of \<open>task\<close>.
\<close>

definition query_one ::
  "nat \<Rightarrow> (nat \<Rightarrow> post_result) \<Rightarrow> pystr \<Rightarrow> pystr \<Rightarrow> result_dict list \<times> pystr list
     \<Rightarrow> (py_exn + result_dict list \<times> pystr list) option" where
  "query_one fuel post label code st =
     (if code = [] then Some (Inr st)
      else case fetch_data fuel post code (Some code) of
             None \<Rightarrow> None
           | Some (Inl x) \<Rightarrow> Some (Inl x)
           | Some (Inr data) \<Rightarrow> Some (Inr (collect label code data st)))"

text \<open>South first, then north.\<close>

definition gather ::
  "nat \<Rightarrow> (nat \<Rightarrow> post_result) \<Rightarrow> (nat \<Rightarrow> post_result) \<Rightarrow> pystr \<Rightarrow> pystr
     \<Rightarrow> (py_exn + result_dict list \<times> pystr list) option" where
  "gather fuel post_south post_north south_code north_code =
     (case query_one fuel post_south south_label south_code ([], []) of
        None \<Rightarrow> None
      | Some (Inl x) \<Rightarrow> Some (Inl x)
      | Some (Inr st) \<Rightarrow> query_one fuel post_north north_label north_code st)"

text \<open>
  The end of \<open>task\<close>, in the order of the source: everything failed; nothing found; data,
  with or without a failed call sign. \<open>old_results\<close> is the buffer as the query found
  it, which the first branch leaves alone.
\<close>

definition finish :: "result_dict list \<Rightarrow> pystr list \<Rightarrow> result_dict list \<Rightarrow> ui" where
  "finish combined_results error_messages old_results =
     (if combined_results = [] \<and> error_messages \<noteq> [] then
        \<lparr> status_text = status_failed,
          all_results = old_results,
          result_list = Show_results [ErrorDict (py_join separator error_messages) None] \<rparr>
      else if combined_results = [] then
        \<lparr> status_text = status_no_data,
          all_results = [],
          result_list = Show_results [] \<rparr>
      else
        \<lparr> status_text =
            status_done @ repr_int (int (length combined_results)) @
            (if error_messages \<noteq> [] then partial_suffix else plain_suffix),
          all_results = combined_results,
          result_list = Apply_filter \<rparr>)"

definition task ::
  "nat \<Rightarrow> (nat \<Rightarrow> post_result) \<Rightarrow> (nat \<Rightarrow> post_result) \<Rightarrow> pystr \<Rightarrow> pystr
     \<Rightarrow> result_dict list \<Rightarrow> ui option" where
  "task fuel post_south post_north south_code north_code old_results =
     (case gather fuel post_south post_north south_code north_code of
        None \<Rightarrow> None
      | Some (Inl x) \<Rightarrow>
          Some \<lparr> status_text = status_unexpected,
                 all_results = old_results,
                 result_list = Unexpected x \<rparr>
      | Some (Inr (combined_results, error_messages)) \<Rightarrow>
          Some (finish combined_results error_messages old_results))"

text \<open>
  What the list one run returned stands for, read as \<open>task\<close> reads it, by its first
  element: the records it brings, none when it is the error list, and the failure
  message it brings, with the label and the code of the call sign in front.
\<close>

definition records_of :: "result_dict list \<Rightarrow> result_dict list" where
  "records_of data = (case data of ErrorDict err raw # rest \<Rightarrow> [] | _ \<Rightarrow> data)"

definition failure_of :: "pystr \<Rightarrow> pystr \<Rightarrow> result_dict list \<Rightarrow> pystr list" where
  "failure_of label code data =
     (case data of ErrorDict err raw # rest \<Rightarrow> [label @ code @ query_failed @ err] | _ \<Rightarrow> [])"

section \<open>Shapes of the output strings\<close>

definition is_digit :: "nat \<Rightarrow> bool" where
  "is_digit c \<longleftrightarrow> 48 \<le> c \<and> c \<le> 57"

text \<open>A non-empty run of ASCII digits: the text of a non-negative integer.\<close>

definition nonneg_int_string :: "pystr \<Rightarrow> bool" where
  "nonneg_int_string s \<longleftrightarrow> s \<noteq> [] \<and> list_all is_digit s"



section \<open>Properties of the normalizer\<close>

subsection \<open>Evaluation and projections\<close>

lemmas int_eval = int_of_str_def ascii_def int_space_def digit_value_def decimal_zeros_def
  int_max_str_digits_def py_str_int_def repr_int_def digits10.simps qty_str_of_def

lemmas date_eval = fmt_date_of_def format_date_def py_slice_def ascii_def

lemma qty_row_item: "qty (row_item qc row) = qty_str_of (dict_get row key_packQty1 PNone)"
  by (simp add: row_item_def Let_def)

lemma date_row_item: "date (row_item qc row) = fmt_date_of (dict_get row key_inWareDate1 PNone)"
  by (simp add: row_item_def Let_def)

lemma so_no_row_item: "so_no (row_item qc row) = dict_get row key_soNo (PStr no_so)"
  by (simp add: row_item_def Let_def)

subsection \<open>Quantity\<close>

lemma digits10_digits: "list_all is_digit (digits10 n) \<and> digits10 n \<noteq> []"
proof (induction n rule: digits10.induct)
  case (1 n)
  show ?case
  proof (cases "n < 10")
    case True
    then show ?thesis by (subst (1 2) digits10.simps) (simp add: is_digit_def)
  next
    case False
    with 1 have "list_all is_digit (digits10 (n div 10))" by simp
    moreover have "is_digit (48 + n mod 10)" by (simp add: is_digit_def)
    ultimately show ?thesis using False by (subst (1 2) digits10.simps) simp
  qed
qed

lemma nonneg_repr_int: "nonneg_int_string (repr_int n) \<longleftrightarrow> 0 \<le> n"
  using digits10_digits [of "nat n"]
  by (simp add: nonneg_int_string_def repr_int_def is_digit_def)

lemma qty_str_of_repr: "\<exists>n. qty_str_of q = repr_int n"
proof -
  have z: "ascii ''0'' = repr_int 0"
    by (simp add: ascii_def repr_int_def digits10.simps)
  show ?thesis
    unfolding qty_str_of_def
    by (auto simp: z py_str_int_def split: sum.splits)
qed

lemma qty_str_of_rejected: "q = PNone \<or> py_int q = Inl e \<Longrightarrow> qty_str_of q = ascii ''0''"
  by (auto simp: qty_str_of_def)

lemma qty_str_of_accepted:
  "py_int q = Inr n \<Longrightarrow> length (digits10 (nat \<bar>n\<bar>)) \<le> int_max_str_digits \<Longrightarrow>
   qty_str_of q = repr_int n"
  by (cases q) (auto simp: qty_str_of_def py_str_int_def)

text \<open>The six raw values the specification lists, evaluated.\<close>

lemma qty_listed_values:
  "qty (row_item qc []) = ascii ''0''"
  "qty (row_item qc [(key_packQty1, PNone)]) = ascii ''0''"
  "qty (row_item qc [(key_packQty1, PInt 0)]) = ascii ''0''"
  "qty (row_item qc [(key_packQty1, PStr (ascii ''12''))]) = ascii ''12''"
  "qty (row_item qc [(key_packQty1, PStr (ascii ''abc''))]) = ascii ''0''"
  "qty (row_item qc [(key_packQty1, PInt (- 5))]) = ascii ''-5''"
  by (simp_all add: qty_row_item dict_get_def int_eval)

text \<open>
  C4, as stated, fails at the raw quantity \<open>-5\<close>: \<open>str(int(-5))\<close> is \<open>-5\<close>, which is
  not the text of a non-negative integer.
\<close>

theorem C4_negative_quantity_counterexample:
  "qty (row_item None [(key_packQty1, PInt (- 5))]) = ascii ''-5'' \<and>
   \<not> nonneg_int_string (qty (row_item None [(key_packQty1, PInt (- 5))]))"
  by (simp add: qty_row_item dict_get_def int_eval nonneg_int_string_def is_digit_def)

text \<open>
  C4 (amended): for every raw quantity value the quantity output is the decimal text of
  an integer, and it is the text of a non-negative integer exactly when that integer is
  not negative. It is \<open>0\<close> when the field is absent, null, or rejected by \<open>int\<close>
  (non-numeric input), and the text of \<open>int(value)\<close>, sign included, when \<open>int\<close> accepts
  the value and the result is within the digit limit of \<open>str\<close>.
\<close>

theorem C4_quantity_is_integer_text:
  "(\<exists>n. qty (row_item qc row) = repr_int n \<and>
        (nonneg_int_string (qty (row_item qc row)) \<longleftrightarrow> 0 \<le> n)) \<and>
   (map_of row key_packQty1 = None \<or> map_of row key_packQty1 = Some PNone \<or>
      (\<exists>v e. map_of row key_packQty1 = Some v \<and> py_int v = Inl e)
      \<longrightarrow> qty (row_item qc row) = ascii ''0'') \<and>
   (\<forall>v n. map_of row key_packQty1 = Some v \<and> py_int v = Inr n \<and>
          length (digits10 (nat \<bar>n\<bar>)) \<le> int_max_str_digits
      \<longrightarrow> qty (row_item qc row) = repr_int n)"
proof (intro conjI)
  obtain n where n: "qty (row_item qc row) = repr_int n"
    using qty_str_of_repr by (auto simp: qty_row_item)
  then have "nonneg_int_string (qty (row_item qc row)) \<longleftrightarrow> 0 \<le> n"
    by (simp add: nonneg_repr_int)
  with n show "\<exists>n. qty (row_item qc row) = repr_int n \<and>
        (nonneg_int_string (qty (row_item qc row)) \<longleftrightarrow> 0 \<le> n)"
    by blast
next
  show "map_of row key_packQty1 = None \<or> map_of row key_packQty1 = Some PNone \<or>
      (\<exists>v e. map_of row key_packQty1 = Some v \<and> py_int v = Inl e)
      \<longrightarrow> qty (row_item qc row) = ascii ''0''"
    by (auto simp: qty_row_item dict_get_def intro: qty_str_of_rejected)
next
  show "\<forall>v n. map_of row key_packQty1 = Some v \<and> py_int v = Inr n \<and>
          length (digits10 (nat \<bar>n\<bar>)) \<le> int_max_str_digits
      \<longrightarrow> qty (row_item qc row) = repr_int n"
    by (auto simp: qty_row_item dict_get_def intro: qty_str_of_accepted)
qed

text \<open>
  Witness for C4: the row \<open>{"packQty1": "abc"}\<close> meets the hypothesis of the second part
  and the row \<open>{"packQty1": "12"}\<close> that of the third.
\<close>

theorem C4_quantity_is_integer_text_witness:
  "py_int (PStr (ascii ''abc'')) = Inl ValueError \<and>
   qty (row_item None [(key_packQty1, PStr (ascii ''abc''))]) = ascii ''0'' \<and>
   py_int (PStr (ascii ''12'')) = Inr 12 \<and>
   qty (row_item None [(key_packQty1, PStr (ascii ''12''))]) = repr_int 12"
proof -
  have a: "py_int (PStr (ascii ''abc'')) = Inl ValueError"
    by (simp add: int_eval)
  have b: "py_int (PStr (ascii ''12'')) = Inr 12"
    by (simp add: int_eval)
  have c: "length (digits10 (nat \<bar>12\<bar>)) \<le> int_max_str_digits"
    by (simp add: int_eval)
  have "qty (row_item None [(key_packQty1, PStr (ascii ''abc''))]) = ascii ''0''"
    using C4_quantity_is_integer_text [of None "[(key_packQty1, PStr (ascii ''abc''))]"] a
    by simp
  moreover have "qty (row_item None [(key_packQty1, PStr (ascii ''12''))]) = repr_int 12"
    using C4_quantity_is_integer_text [of None "[(key_packQty1, PStr (ascii ''12''))]"] b c
    by simp
  ultimately show ?thesis using a b by simp
qed

subsection \<open>Warehousing timestamp\<close>



lemma fmt_date_short:
  "(\<And>s. raw = PStr s \<Longrightarrow> length s < 12) \<Longrightarrow> fmt_date_of raw = no_date"
  by (cases raw) (auto simp: fmt_date_of_def)

lemma fmt_date_positional:
  "fmt_date_of (PStr (y1 # y2 # y3 # y4 # m1 # m2 # d1 # d2 # sep # h1 # h2 # n1 # n2 # rest)) =
     [y1, y2, y3, y4, 47, m1, m2, 47, d1, d2, 32, h1, h2, 58, n1, n2]"
  by (simp add: fmt_date_of_def format_date_def py_slice_def)




text \<open>
  C5, as stated, fails at its own example: in the digits-only \<open>20251216153545\<close> offset 8
  holds the first digit of the hour, which the code skips as the separator, so the
  output is \<open>2025/12/16 53:54\<close>.
\<close>

theorem C5_digits_only_counterexample:
  "date (row_item None [(key_inWareDate1, PStr (ascii ''20251216153545''))])
     = ascii ''2025/12/16 53:54'' \<and>
   date (row_item None [(key_inWareDate1, PStr (ascii ''20251216153545''))])
     \<noteq> ascii ''2025/12/16 15:35''"
  by (simp add: date_row_item dict_get_def date_eval)

text \<open>
  C5 (amended): for every raw timestamp value that is absent, of non-string type or
  shorter than 12 characters the output is exactly the sentinel; for every string of at
  least 13 characters the output is built by position from offsets 0-3, 4-5, 6-7, 9-10
  and 11-12, offset 8 skipped, so that \<open>20251216 153545\<close>, with its separator, gives
  \<open>2025/12/16 15:35\<close>.
\<close>

theorem C5_timestamp_by_position:
  "((\<forall>s. map_of row key_inWareDate1 = Some (PStr s) \<longrightarrow> length s < 12)
      \<longrightarrow> date (row_item qc row) = no_date) \<and>
   (map_of row key_inWareDate1 =
      Some (PStr (y1 # y2 # y3 # y4 # m1 # m2 # d1 # d2 # sep # h1 # h2 # n1 # n2 # rest))
      \<longrightarrow> date (row_item qc row) =
            [y1, y2, y3, y4, 47, m1, m2, 47, d1, d2, 32, h1, h2, 58, n1, n2]) \<and>
   date (row_item qc [(key_inWareDate1, PStr (ascii ''20251216 153545''))])
     = ascii ''2025/12/16 15:35''"
proof (intro conjI impI)
  assume "\<forall>s. map_of row key_inWareDate1 = Some (PStr s) \<longrightarrow> length s < 12"
  then have "\<And>s. dict_get row key_inWareDate1 PNone = PStr s \<Longrightarrow> length s < 12"
    by (auto simp: dict_get_def split: option.splits)
  then show "date (row_item qc row) = no_date"
    by (simp add: date_row_item fmt_date_short)
next
  assume "map_of row key_inWareDate1 =
      Some (PStr (y1 # y2 # y3 # y4 # m1 # m2 # d1 # d2 # sep # h1 # h2 # n1 # n2 # rest))"
  then show "date (row_item qc row) =
            [y1, y2, y3, y4, 47, m1, m2, 47, d1, d2, 32, h1, h2, 58, n1, n2]"
    by (simp add: date_row_item dict_get_def fmt_date_positional)
next
  show "date (row_item qc [(key_inWareDate1, PStr (ascii ''20251216 153545''))])
     = ascii ''2025/12/16 15:35''"
    by (simp add: date_row_item dict_get_def date_eval)
qed

text \<open>
  Witness for C5: the row \<open>{"inWareDate1": 20251216}\<close>, a number, meets the first
  hypothesis and a row holding a 15-character string the second.
\<close>

theorem C5_timestamp_by_position_witness:
  "date (row_item None [(key_inWareDate1, PInt 20251216)]) = no_date \<and>
   date (row_item None [(key_inWareDate1, PStr (ascii ''20251216 153545''))])
     = ascii ''2025/12/16 15:35''"
proof -
  have "date (row_item None [(key_inWareDate1, PInt 20251216)]) = no_date"
    using C5_timestamp_by_position
      [where row = "[(key_inWareDate1, PInt 20251216)]" and qc = None]
    by simp
  moreover
  have "date (row_item None [(key_inWareDate1, PStr (ascii ''20251216 153545''))])
     = ascii ''2025/12/16 15:35''"
    using C5_timestamp_by_position
      [where row = "[(key_inWareDate1, PStr (ascii ''20251216 153545''))]" and qc = None
         and ?y1.0 = 50 and ?y2.0 = 48 and ?y3.0 = 50 and ?y4.0 = 53 and ?m1.0 = 49
         and ?m2.0 = 50 and ?d1.0 = 49 and ?d2.0 = 54 and sep = 32 and ?h1.0 = 49
         and ?h2.0 = 53 and ?n1.0 = 51 and ?n2.0 = 53 and rest = "[52, 53]"]
    by (simp add: ascii_def)
  ultimately show ?thesis by simp
qed



subsection \<open>Order number\<close>

text \<open>
  C7, as stated, fails for a field that is present but empty: \<open>row.get("soNo", default)\<close>
  uses the default only when the key is missing, so the empty string is kept.
\<close>

theorem C7_empty_order_number_counterexample:
  "so_no (row_item None [(key_soNo, PStr [])]) = PStr [] \<and>
   so_no (row_item None [(key_soNo, PStr [])]) \<noteq> PStr no_so"
  by (simp add: so_no_row_item dict_get_def no_so_def)

text \<open>
  C7 (amended): for every row the order number equals the raw order-number field
  whenever the key is present, whatever it holds (null and the empty string included),
  and equals the "no S/O" sentinel only when the key is absent.
\<close>

theorem C7_order_number_passthrough:
  "so_no (row_item qc row) =
     (case map_of row key_soNo of None \<Rightarrow> PStr no_so | Some v \<Rightarrow> v)"
  by (simp add: so_no_row_item dict_get_def)

subsection \<open>The normalizer as a map over the rows\<close>

lemma parse_rows_dicts:
  "parse_rows qc (map PDict ds) acc = Inr (acc @ map (row_item qc) ds)"
  by (induction ds arbitrary: acc) simp_all









text \<open>
  C10: the normalizer maps the rows one by one: its result on a list of mappings is the
  list of the items of the rows, in the order of the rows, each built from its own row
  and the query code alone; so the result is as long as the input, and it is a function
  of the input.
\<close>

theorem C10_normalizer_is_map:
  "parse_json_list (PList (map PDict ds)) qc = Inr (map (row_item qc) ds) \<and>
   (\<exists>res. parse_json_list (PList (map PDict ds)) qc = Inr res \<and> length res = length ds)"
  by (simp add: parse_json_list_def parse_rows_dicts)

section \<open>Properties of the pagination engine\<close>

lemma parse_rows_length:
  "parse_rows qc rows acc = Inr res \<Longrightarrow> length res = length acc + length rows"
proof (induction rows arbitrary: acc)
  case Nil then show ?case by simp
next
  case (Cons row rows)
  then show ?case by (auto split: sum.splits)
qed

lemma parse_json_list_nonempty:
  assumes t: "truthy raw" and r: "parse_json_list raw qc = Inr res"
  shows "res \<noteq> []"
proof (cases raw)
  case (PList xs)
  with t r show ?thesis
    by (auto simp: parse_json_list_def dest: parse_rows_length)
next
  case (PDict d)
  with t r show ?thesis
    by (cases d) (auto simp: parse_json_list_def)
next
  case (PStr s)
  with t r show ?thesis
    by (cases s) (auto simp: parse_json_list_def)
qed (use r in \<open>auto simp: parse_json_list_def\<close>)

text \<open>The body of the loop when the POST has returned a response.\<close>

lemma page_step_json:
  "page_step (PostReturned resp) qc acc =
     (if status_code resp \<noteq> 200 then
        (if acc = []
         then Return (Inr [ErrorDict (server_error @ repr_int (status_code resp)) None])
         else Return (Inr acc))
      else
        (case resp_json resp of
           Inl e \<Rightarrow>
             if acc = []
             then Return (Inr [ErrorDict (parse_error @ e)
                                 (Some (py_slice (resp_text resp) 0 200))])
             else Return (Inr acc)
         | Inr json_data \<Rightarrow>
             (case py_get json_data key_total (PInt 0) of
                Inl x \<Rightarrow> Return (Inl x)
              | Inr total_count \<Rightarrow>
                  (case py_get json_data key_data (PList []) of
                     Inl x \<Rightarrow> Return (Inl x)
                   | Inr raw_data \<Rightarrow>
                       if \<not> truthy raw_data then Return (Inr acc)
                       else
                         (case parse_json_list raw_data qc of
                            Inl x \<Rightarrow> Return (Inl x)
                          | Inr parsed_page \<Rightarrow>
                              (case py_int_ge (int (length (acc @ map ItemDict parsed_page)))
                                      total_count of
                                 Inl x \<Rightarrow> Return (Inl x)
                               | Inr reached \<Rightarrow>
                                   if reached
                                   then Return (Inr (acc @ map ItemDict parsed_page))
                                   else Continue (acc @ map ItemDict parsed_page)))))))"
  by (simp add: page_step_def)

lemma page_step_Continue:
  assumes "page_step posted qc acc = Continue acc'"
  shows "\<exists>resp json_data total raw page.
           posted = PostReturned resp \<and> status_code resp = 200 \<and>
           resp_json resp = Inr json_data \<and>
           py_get json_data key_total (PInt 0) = Inr total \<and>
           py_get json_data key_data (PList []) = Inr raw \<and> truthy raw \<and>
           parse_json_list raw qc = Inr page \<and> page \<noteq> [] \<and>
           acc' = acc @ map ItemDict page \<and>
           py_int_ge (int (length acc')) total = Inr False"
proof (cases posted)
  case (PostRaised e)
  with assms show ?thesis by (simp add: page_step_def split: if_splits)
next
  case (PostReturned resp)
  with assms have c: "page_step (PostReturned resp) qc acc = Continue acc'" by simp
  have s: "status_code resp = 200"
    using c by (simp add: page_step_json split: if_splits)
  obtain jd where jd: "resp_json resp = Inr jd"
    using c s by (cases "resp_json resp") (simp_all add: page_step_json split: if_splits)
  obtain total where total: "py_get jd key_total (PInt 0) = Inr total"
    using c s jd by (cases "py_get jd key_total (PInt 0)") (simp_all add: page_step_json)
  obtain raw where raw: "py_get jd key_data (PList []) = Inr raw"
    using c s jd total by (cases "py_get jd key_data (PList [])") (simp_all add: page_step_json)
  have t: "truthy raw"
    using c s jd total raw by (simp add: page_step_json split: if_splits)
  obtain page where page: "parse_json_list raw qc = Inr page"
    using c s jd total raw t by (cases "parse_json_list raw qc") (simp_all add: page_step_json)
  have ne: "page \<noteq> []" using t page by (rule parse_json_list_nonempty)
  obtain reached where g: "py_int_ge (int (length (acc @ map ItemDict page))) total = Inr reached"
    using c s jd total raw t page
    by (cases "py_int_ge (int (length (acc @ map ItemDict page))) total") (simp_all add: page_step_json)
  have "\<not> reached \<and> acc' = acc @ map ItemDict page"
    using c s jd total raw t page g by (simp add: page_step_json split: if_splits)
  with PostReturned s jd total raw t page ne g show ?thesis by auto
qed

lemma fetch_pages_skip:
  "pages_so_far post vsl qcode k = Some acc \<Longrightarrow>
   fetch_pages (k + n) post (Some (run_code vsl qcode)) 1 [] =
   fetch_pages n post (Some (run_code vsl qcode)) (Suc k) acc"
proof (induction k arbitrary: acc n)
  case 0
  then show ?case by simp
next
  case (Suc k)
  from Suc.prems obtain acc0 where
    a: "pages_so_far post vsl qcode k = Some acc0" and
    b: "page_step (post (Suc k)) (Some (run_code vsl qcode)) acc0 = Continue acc"
    by (auto split: option.splits step.splits)
  have "fetch_pages (Suc k + n) post (Some (run_code vsl qcode)) 1 [] =
        fetch_pages (k + Suc n) post (Some (run_code vsl qcode)) 1 []" by simp
  also have "\<dots> = fetch_pages (Suc n) post (Some (run_code vsl qcode)) (Suc k) acc0"
    by (rule Suc.IH [OF a])
  also have "\<dots> = fetch_pages n post (Some (run_code vsl qcode)) (Suc (Suc k)) acc"
    using b by simp
  finally show ?case .
qed

lemma pages_so_far_items:
  "pages_so_far post vsl qcode k = Some acc \<Longrightarrow> list_all is_item acc \<and> k \<le> length acc"
proof (induction k arbitrary: acc)
  case 0
  then show ?case by simp
next
  case (Suc k)
  from Suc.prems obtain acc0 where
    a: "pages_so_far post vsl qcode k = Some acc0" and
    b: "page_step (post (Suc k)) (Some (run_code vsl qcode)) acc0 = Continue acc"
    by (auto split: option.splits step.splits)
  from page_step_Continue [OF b] obtain page where
    p: "page \<noteq> []" "acc = acc0 @ map ItemDict page" by blast
  from Suc.IH [OF a] have "list_all is_item acc0" "k \<le> length acc0" by simp_all
  moreover have "list_all is_item (map ItemDict page)" by (simp add: list_all_iff)
  moreover have "Suc 0 \<le> length page" using p(1) by (cases page) simp_all
  ultimately show ?case using p(2) by simp
qed

lemma py_int_ge_mono:
  assumes "py_int_ge n t \<noteq> Inr False" and "n \<le> n'"
  shows "py_int_ge n' t \<noteq> Inr False"
proof (cases t)
  case (PFloat f)
  show ?thesis
  proof (cases f)
    case (Finite m e)
    show ?thesis
    proof (cases "0 \<le> e")
      case True
      with assms PFloat Finite show ?thesis by simp
    next
      case False
      have le: "n * 2 ^ nat (- e) \<le> n' * 2 ^ nat (- e)"
        using assms(2) by (rule mult_right_mono) simp
      from assms(1) PFloat Finite False have "m \<le> n * 2 ^ nat (- e)" by simp
      then have "m \<le> n' * 2 ^ nat (- e)" using le by (rule order_trans)
      with PFloat Finite False show ?thesis by simp
    qed
  qed (use assms PFloat in auto)
qed (use assms in auto)

lemma fetch_pages_bounded:
  assumes tot: "\<And>p resp d. post p = PostReturned resp \<Longrightarrow> resp_json resp = Inr (PDict d)
                  \<Longrightarrow> total_at_most N (dict_get d key_total (PInt 0))"
  shows "N \<le> length acc + fuel \<Longrightarrow> 0 < fuel \<Longrightarrow> \<exists>r. fetch_pages fuel post qc p acc = Some r"
proof (induction fuel arbitrary: p acc)
  case 0
  then show ?case by simp
next
  case (Suc fuel)
  show ?case
  proof (cases "page_step (post p) qc acc")
    case (Return r)
    then show ?thesis by simp
  next
    case (Continue acc')
    from page_step_Continue [OF this] obtain resp jd total page where
      r: "post p = PostReturned resp" "resp_json resp = Inr jd"
         "py_get jd key_total (PInt 0) = Inr total" and
      pg: "page \<noteq> []" "acc' = acc @ map ItemDict page" and
      ge: "py_int_ge (int (length acc')) total = Inr False"
      by blast
    from r(3) obtain d where d: "jd = PDict d" "total = dict_get d key_total (PInt 0)"
      by (cases jd) auto
    have "total_at_most N total" using tot [OF r(1)] r(2) d by simp
    then have "\<not> N \<le> length acc'"
      using py_int_ge_mono [of "int N" total "int (length acc')"] ge
      by (auto simp: total_at_most_def)
    moreover have "length acc < length acc'" using pg by (cases page) simp_all
    ultimately have "N \<le> length acc' + fuel" "0 < fuel" using Suc.prems by simp_all
    from Suc.IH [OF this] show ?thesis using Continue by simp
  qed
qed

lemma page_step_forever:
  "page_step (post_forever p) qc acc = Continue (acc @ [ItemDict (row_item qc [])])"
  by (simp add: post_forever_def ok_response_def page_step_def dict_get_def
        parse_json_list_def key_total_def key_data_def ascii_def)

lemma fetch_pages_forever: "fetch_pages fuel post_forever qc p acc = None"
  by (induction fuel arbitrary: p acc) (simp_all add: page_step_forever)

lemma fetch_data_at_page:
  assumes "pages_so_far post vsl qcode k = Some acc" and "k < fuel"
    and "page_step (post (Suc k)) (Some (run_code vsl qcode)) acc = Return r"
  shows "fetch_data fuel post vsl qcode = Some r"
proof -
  from assms(2) obtain n where n: "fuel = k + Suc n"
    by (metis less_iff_Suc_add add_Suc_right)
  have "fetch_data fuel post vsl qcode =
        fetch_pages (Suc n) post (Some (run_code vsl qcode)) (Suc k) acc"
    unfolding fetch_data_def n by (rule fetch_pages_skip [OF assms(1)])
  then show ?thesis using assms(3) by simp
qed

text \<open>
  C1: let the run have passed \<open>k\<close> pages, with \<open>acc\<close> accumulated, and let the fetch of
  page \<open>k + 1\<close> fail: the POST raises, the status is not 200 (every non-2xx status is
  such), or the body does not decode as JSON. On the first page (\<open>k = 0\<close>) nothing is
  accumulated and the run returns the one error dict with the message of the failure and
  no record; on a later page the run returns exactly \<open>acc\<close>, which is not empty and
  holds item dicts only.
\<close>

theorem C1_failure_first_page_or_later:
  assumes "pages_so_far post vsl qcode k = Some acc" and "k < fuel"
  shows
    "(post (Suc k) = PostRaised e \<longrightarrow>
        fetch_data fuel post vsl qcode =
          Some (Inr (if k = 0 then [ErrorDict (connection_failed @ e) None] else acc))) \<and>
     (post (Suc k) = PostReturned resp \<and> status_code resp \<noteq> 200 \<longrightarrow>
        fetch_data fuel post vsl qcode =
          Some (Inr (if k = 0
                     then [ErrorDict (server_error @ repr_int (status_code resp)) None]
                     else acc))) \<and>
     (post (Suc k) = PostReturned resp \<and> status_code resp = 200 \<and> resp_json resp = Inl e \<longrightarrow>
        fetch_data fuel post vsl qcode =
          Some (Inr (if k = 0
                     then [ErrorDict (parse_error @ e) (Some (py_slice (resp_text resp) 0 200))]
                     else acc))) \<and>
     (if k = 0 then acc = [] else acc \<noteq> [] \<and> list_all is_item acc)"
proof -
  have items: "list_all is_item acc" "k \<le> length acc"
    using pages_so_far_items [OF assms(1)] by simp_all
  have z: "k = 0 \<longleftrightarrow> acc = []"
    using items(2) assms(1) by (cases k) auto
  note at = fetch_data_at_page [OF assms]
  show ?thesis
    using z items(1) by (auto intro!: at simp: page_step_def)
qed

lemma parse_json_list_replicate:
  "parse_json_list (PList (replicate n (PDict d))) qc = Inr (replicate n (row_item qc d))"
  using parse_rows_dicts [of qc "replicate n d" "[]"]
  by (simp add: parse_json_list_def)

lemmas key_neq = key_total_def key_data_def ascii_def

lemma page_step_500:
  "length acc < 700 \<Longrightarrow>
   page_step (ok_response (PDict [(key_total, PInt 1200),
                               (key_data, PList (replicate 500 (PDict [])))])) qc acc =
   Continue (acc @ replicate 500 (ItemDict (row_item qc [])))"
  by (simp add: ok_response_def page_step_def dict_get_def key_neq parse_json_list_replicate)

lemma pages_so_far_1000:
  "pages_so_far post_two_then_down vsl qcode 2 =
     Some (replicate 1000 (ItemDict (row_item (Some (run_code vsl qcode)) [])))"
proof -
  have two: "(2::nat) = Suc (Suc 0)" by simp
  have r: "replicate 500 x @ replicate 500 x = replicate 1000 x" for x :: result_dict
    by (simp add: replicate_add [symmetric])
  show ?thesis
    unfolding two
    by (simp add: post_two_then_down_def page_step_500 r)
qed

text \<open>
  Witness for C1. Pages 1 and 2 bring 1000 records and page 3 times out: the run
  returns the 1000 records. A first page with status 503, or with a body that is no
  JSON, gives the error dict alone.
\<close>

theorem C1_failure_first_page_or_later_witness:
  "fetch_data 3 post_two_then_down (ascii ''AB'') None =
     Some (Inr (replicate 1000 (ItemDict (row_item (Some (ascii ''AB'')) [])))) \<and>
   fetch_data 1 post_503 (ascii ''AB'') None =
     Some (Inr [ErrorDict (server_error @ ascii ''503'') None]) \<and>
   fetch_data 1 post_html (ascii ''AB'') None =
     Some (Inr [ErrorDict (parse_error @ ascii ''Expecting value'') (Some (ascii ''<html>''))])"
proof (intro conjI)
  show "fetch_data 3 post_two_then_down (ascii ''AB'') None =
     Some (Inr (replicate 1000 (ItemDict (row_item (Some (ascii ''AB'')) []))))"
    using C1_failure_first_page_or_later
       [OF pages_so_far_1000 [of "ascii ''AB''" None],
        where fuel = 3 and e = "ascii ''timed out''"]
    by (simp add: post_two_then_down_def run_code_def)
next
  show "fetch_data 1 post_503 (ascii ''AB'') None =
     Some (Inr [ErrorDict (server_error @ ascii ''503'') None])"
    using C1_failure_first_page_or_later
       [where post = post_503 and vsl = "ascii ''AB''" and qcode = None and k = 0
          and acc = "[]" and fuel = 1
          and resp = "\<lparr> status_code = 503, resp_text = ascii ''Service Unavailable'',
                          resp_json = Inl (ascii ''Expecting value'') \<rparr>"]
    by (simp add: post_503_def repr_int_def digits10.simps ascii_def)
next
  show "fetch_data 1 post_html (ascii ''AB'') None =
     Some (Inr [ErrorDict (parse_error @ ascii ''Expecting value'') (Some (ascii ''<html>''))])"
    using C1_failure_first_page_or_later
       [where post = post_html and vsl = "ascii ''AB''" and qcode = None and k = 0
          and acc = "[]" and fuel = 1 and e = "ascii ''Expecting value''"
          and resp = "\<lparr> status_code = 200, resp_text = ascii ''<html>'',
                          resp_json = Inl (ascii ''Expecting value'') \<rparr>"]
    by (simp add: post_html_def py_slice_def ascii_def)
qed

subsection \<open>Termination\<close>

lemma page_step_total_3:
  "page_step (post_total_3 p) qc acc =
     (if 3 \<le> Suc (length acc) then Return (Inr (acc @ [ItemDict (row_item qc [])]))
      else Continue (acc @ [ItemDict (row_item qc [])]))"
  by (simp add: post_total_3_def ok_response_def page_step_def dict_get_def
        parse_json_list_def key_neq)

text \<open>
  C2, as stated, fails: the loop has no short-page check. \<open>post_forever\<close> answers every
  page with one row, fewer than the 500 asked for, and a total that is never reached;
  after its first page the loop goes on, and after 1000 requests it is still running.
\<close>

theorem C2_short_page_counterexample:
  "page_step (post_forever 1) (Some (ascii ''AB'')) [] =
     Continue [ItemDict (row_item (Some (ascii ''AB'')) [])] \<and>
   fetch_data 1000 post_forever (ascii ''AB'') None = None"
  by (simp add: page_step_forever fetch_data_def fetch_pages_forever)

text \<open>
  C2 (amended): when every page response reports a total that the count \<open>N\<close> reaches
  (a number of at most \<open>N\<close>, or no number at all, which makes the comparison raise),
  the run ends, with a result or with an exception, after at most \<open>max N 1\<close> page
  requests, since every page that does not end the run adds a record; there is no
  short-page check, and against a server whose pages are never empty and whose total
  is never reached (\<open>post_forever\<close>) the run does not end, whatever the number of
  requests.
\<close>

theorem C2_returns_when_total_bounded:
  "((\<forall>p resp d. post p = PostReturned resp \<and> resp_json resp = Inr (PDict d)
        \<longrightarrow> total_at_most N (dict_get d key_total (PInt 0)))
      \<longrightarrow> (\<exists>r. fetch_data (max N 1) post vsl qcode = Some r)) \<and>
   (\<forall>fuel. fetch_data fuel post_forever vsl qcode = None)"
proof (intro conjI impI allI)
  assume a: "\<forall>p resp d. post p = PostReturned resp \<and> resp_json resp = Inr (PDict d)
        \<longrightarrow> total_at_most N (dict_get d key_total (PInt 0))"
  have "\<exists>r. fetch_pages (max N 1) post (Some (run_code vsl qcode)) 1 [] = Some r"
  proof (rule fetch_pages_bounded)
    fix p resp d
    assume "post p = PostReturned resp" "resp_json resp = Inr (PDict d)"
    with a show "total_at_most N (dict_get d key_total (PInt 0))" by blast
  next
    show "N \<le> length ([] :: result_dict list) + max N 1" by simp
  next
    show "0 < max N 1" by simp
  qed
  then show "\<exists>r. fetch_data (max N 1) post vsl qcode = Some r"
    by (simp add: fetch_data_def)
next
  fix fuel
  show "fetch_data fuel post_forever vsl qcode = None"
    by (simp add: fetch_data_def fetch_pages_forever)
qed

text \<open>
  Witness for C2: \<open>post_total_3\<close> reports the total 3 on every page, so three requests
  are enough.
\<close>

theorem C2_returns_when_total_bounded_witness:
  "\<exists>r. fetch_data 3 post_total_3 (ascii ''AB'') None = Some r"
proof -
  have h: "\<forall>p resp d. post_total_3 p = PostReturned resp \<and> resp_json resp = Inr (PDict d)
        \<longrightarrow> total_at_most 3 (dict_get d key_total (PInt 0))"
    by (auto simp: post_total_3_def ok_response_def total_at_most_def dict_get_def key_neq)
  with C2_returns_when_total_bounded
         [where post = post_total_3 and N = 3 and vsl = "ascii ''AB''" and qcode = None]
  have "\<exists>r. fetch_data (max 3 1) post_total_3 (ascii ''AB'') None = Some r"
    by blast
  then show ?thesis by simp
qed

subsection \<open>A body that lacks \<open>total\<close> or \<open>data\<close>\<close>

text \<open>
  C9, as stated, fails: \<open>json_data.get\<close> supplies 0 for a missing \<open>total\<close> and the empty
  list for a missing \<open>data\<close>. A first page whose body is the JSON object \<open>{}\<close> is taken
  as an empty page and the run returns the empty list, which is \<open>Ok\<close>, not \<open>Failed\<close>.
\<close>

theorem C9_empty_object_counterexample:
  "fetch_data 1 (\<lambda>page. ok_response (PDict [])) (ascii ''AB'') None = Some (Inr [])"
  by (simp add: fetch_data_def ok_response_def page_step_def dict_get_def)

text \<open>
  C9 (amended): let the run have passed \<open>k\<close> pages, with \<open>acc\<close> accumulated, and let page
  \<open>k + 1\<close> come with status 200 and a JSON object as body. If the object lacks \<open>data\<close>
  the page counts as empty: the run stops and returns \<open>acc\<close> (the empty list on the
  first page), never an error dict. If it lacks \<open>total\<close> and \<open>data\<close> is a non-empty
  list of objects, the total counts as 0: the rows are normalized and appended and the
  run stops with them.
\<close>

theorem C9_missing_fields_take_defaults:
  assumes "pages_so_far post vsl qcode k = Some acc" and "k < fuel"
    and "post (Suc k) = PostReturned resp" and "status_code resp = 200"
    and "resp_json resp = Inr (PDict d)"
  shows
    "(map_of d key_data = None \<longrightarrow> fetch_data fuel post vsl qcode = Some (Inr acc)) \<and>
     (map_of d key_total = None \<and> map_of d key_data = Some (PList (map PDict rows)) \<and>
        rows \<noteq> [] \<longrightarrow>
        fetch_data fuel post vsl qcode =
          Some (Inr (acc @ map ItemDict (map (row_item (Some (run_code vsl qcode))) rows)))) \<and>
     list_all is_item acc"
proof (intro conjI impI)
  assume "map_of d key_data = None"
  then have "page_step (post (Suc k)) (Some (run_code vsl qcode)) acc = Return (Inr acc)"
    using assms(3-5) by (simp add: page_step_json dict_get_def)
  with assms(1,2) show "fetch_data fuel post vsl qcode = Some (Inr acc)"
    by (rule fetch_data_at_page)
next
  assume a: "map_of d key_total = None \<and> map_of d key_data = Some (PList (map PDict rows)) \<and>
        rows \<noteq> []"
  have "parse_json_list (PList (map PDict rows)) (Some (run_code vsl qcode)) =
          Inr (map (row_item (Some (run_code vsl qcode))) rows)"
    by (simp add: parse_json_list_def parse_rows_dicts)
  then have "page_step (post (Suc k)) (Some (run_code vsl qcode)) acc =
          Return (Inr (acc @ map ItemDict (map (row_item (Some (run_code vsl qcode))) rows)))"
    using assms(3-5) a by (simp add: page_step_json dict_get_def)
  with assms(1,2) show "fetch_data fuel post vsl qcode =
          Some (Inr (acc @ map ItemDict (map (row_item (Some (run_code vsl qcode))) rows)))"
    by (rule fetch_data_at_page)
next
  show "list_all is_item acc"
    using pages_so_far_items [OF assms(1)] by simp
qed

lemma pages_so_far_one_of_five:
  "post 1 = ok_response (PDict [(key_total, PInt 5), (key_data, PList [PDict []])]) \<Longrightarrow>
   pages_so_far post vsl qcode 1 = Some [ItemDict (row_item (Some (run_code vsl qcode)) [])]"
proof -
  assume p: "post 1 = ok_response (PDict [(key_total, PInt 5), (key_data, PList [PDict []])])"
  have one: "(1::nat) = Suc 0" by simp
  have "pages_so_far post vsl qcode (Suc 0) =
          Some [ItemDict (row_item (Some (run_code vsl qcode)) [])]"
    using p by (simp add: ok_response_def page_step_def dict_get_def parse_json_list_def
                  key_neq)
  then show ?thesis by (simp only: one)
qed

text \<open>
  Witness for C9: after a first page of one row out of five, a second page \<open>{}\<close> ends
  the run with that one record, and a second page with one row and no \<open>total\<close> ends it
  with two.
\<close>

theorem C9_missing_fields_take_defaults_witness:
  "fetch_data 2 post_then_empty_object (ascii ''AB'') None =
     Some (Inr [ItemDict (row_item (Some (ascii ''AB'')) [])]) \<and>
   fetch_data 2 post_then_no_total (ascii ''AB'') None =
     Some (Inr [ItemDict (row_item (Some (ascii ''AB'')) []),
                ItemDict (row_item (Some (ascii ''AB'')) [])])"
proof (intro conjI)
  have s: "pages_so_far post_then_empty_object (ascii ''AB'') None 1 =
             Some [ItemDict (row_item (Some (run_code (ascii ''AB'') None)) [])]"
    by (rule pages_so_far_one_of_five) (simp add: post_then_empty_object_def)
  show "fetch_data 2 post_then_empty_object (ascii ''AB'') None =
     Some (Inr [ItemDict (row_item (Some (ascii ''AB'')) [])])"
    using C9_missing_fields_take_defaults
      [OF s, where fuel = 2 and d = "[]"
         and resp = "\<lparr> status_code = 200, resp_text = [], resp_json = Inr (PDict []) \<rparr>"]
    by (simp add: post_then_empty_object_def ok_response_def run_code_def)
next
  have s: "pages_so_far post_then_no_total (ascii ''AB'') None 1 =
             Some [ItemDict (row_item (Some (run_code (ascii ''AB'') None)) [])]"
    by (rule pages_so_far_one_of_five) (simp add: post_then_no_total_def)
  show "fetch_data 2 post_then_no_total (ascii ''AB'') None =
     Some (Inr [ItemDict (row_item (Some (ascii ''AB'')) []),
                ItemDict (row_item (Some (ascii ''AB'')) [])])"
    using C9_missing_fields_take_defaults
      [OF s, where fuel = 2 and d = "[(key_data, PList [PDict []])]" and rows = "[[]]"
         and resp = "\<lparr> status_code = 200, resp_text = [],
                          resp_json = Inr (PDict [(key_data, PList [PDict []])]) \<rparr>"]
    by (simp add: post_then_no_total_def ok_response_def run_code_def key_neq)
qed

section \<open>Properties of the orchestrator\<close>

lemma items_append:
  "list_all is_item acc \<Longrightarrow> list_all is_item (acc @ map ItemDict page)"
  by (auto simp: list_all_iff)

lemma page_step_Return:
  assumes "list_all is_item acc" and "page_step posted qc acc = Return (Inr data)"
  shows "(\<exists>msg raw. data = [ErrorDict msg raw]) \<or> list_all is_item data"
proof (cases posted)
  case (PostRaised e)
  with assms show ?thesis by (auto simp: page_step_def split: if_splits)
next
  case (PostReturned resp)
  have m: "list_all is_item (acc @ map ItemDict page)" for page
    using assms(1) by (rule items_append)
  from assms(2) PostReturned have c: "page_step (PostReturned resp) qc acc = Return (Inr data)"
    by simp
  show ?thesis
  proof (cases "status_code resp = 200")
    case False
    with c assms(1) show ?thesis by (auto simp: page_step_json split: if_splits)
  next
    case True
    show ?thesis
    proof (cases "resp_json resp")
      case (Inl e)
      with c True assms(1) show ?thesis by (auto simp: page_step_json split: if_splits)
    next
      case (Inr jd)
      with c True assms(1) m show ?thesis
        by (auto simp: page_step_json split: sum.splits if_splits)
    qed
  qed
qed

lemma fetch_pages_result:
  "list_all is_item acc \<Longrightarrow> fetch_pages fuel post qc p acc = Some (Inr data) \<Longrightarrow>
   (\<exists>msg raw. data = [ErrorDict msg raw]) \<or> list_all is_item data"
proof (induction fuel arbitrary: p acc)
  case 0
  then show ?case by simp
next
  case (Suc fuel)
  show ?case
  proof (cases "page_step (post p) qc acc")
    case (Return r)
    with Suc.prems show ?thesis by (auto dest: page_step_Return)
  next
    case (Continue acc')
    from page_step_Continue [OF this] obtain page where "acc' = acc @ map ItemDict page"
      by blast
    with items_append [OF Suc.prems(1)] have "list_all is_item acc'" by blast
    from Suc.IH [OF this] Suc.prems(2) Continue show ?thesis by simp
  qed
qed

lemma fetch_data_result:
  "fetch_data fuel post vsl qcode = Some (Inr data) \<Longrightarrow>
   (\<exists>msg raw. data = [ErrorDict msg raw]) \<or> list_all is_item data"
  unfolding fetch_data_def by (rule fetch_pages_result) simp_all

lemma collect_eq:
  "collect label code data (c, e) = (c @ records_of data, e @ failure_of label code data)"
  by (simp add: collect_def records_of_def failure_of_def split: list.splits result_dict.splits)

lemma query_one_eq:
  assumes "if code = [] then data = []
           else fetch_data fuel post code (Some code) = Some (Inr data)"
  shows "query_one fuel post label code (c, e) =
           Some (Inr (c @ records_of data, e @ failure_of label code data))"
proof (cases "code = []")
  case True
  with assms show ?thesis by (simp add: query_one_def records_of_def failure_of_def)
next
  case False
  with assms show ?thesis by (simp add: query_one_def collect_eq)
qed

lemma gather_eq:
  assumes "if south_code = [] then data_south = []
           else fetch_data fuel post_south south_code (Some south_code) = Some (Inr data_south)"
    and "if north_code = [] then data_north = []
         else fetch_data fuel post_north north_code (Some north_code) = Some (Inr data_north)"
  shows "gather fuel post_south post_north south_code north_code =
           Some (Inr (records_of data_south @ records_of data_north,
                      failure_of south_label south_code data_south @
                      failure_of north_label north_code data_north))"
  using query_one_eq [OF assms(1), of south_label "[]" "[]"]
        query_one_eq [OF assms(2), of north_label "records_of data_south"
                        "failure_of south_label south_code data_south"]
  by (simp add: gather_def)

lemma records_of_items:
  assumes "if code = [] then data = []
           else fetch_data fuel post code (Some code) = Some (Inr data)"
  shows "list_all is_item (records_of data)"
proof (cases "code = []")
  case True
  with assms show ?thesis by (simp add: records_of_def)
next
  case False
  with assms have "(\<exists>msg raw. data = [ErrorDict msg raw]) \<or> list_all is_item data"
    by (auto dest: fetch_data_result)
  then show ?thesis
    by (cases data) (auto simp: records_of_def split: result_dict.splits)
qed

text \<open>
  C3 (amended): let each supplied call sign (south, north, or both) have had its run
  return a list, the list of a call sign that is not supplied being empty; let
  \<open>combined\<close> be the records of the south run followed by those of the north run, and
  \<open>errors\<close> the failure messages of the runs that failed, each with the label and the
  code of its call sign in front, south first. No record and a failure: the error dict
  with all the messages joined is shown. No record and no failure: the empty result is
  shown and the buffer emptied. A record and a failure: the merged records become the
  buffer and the status line says that part of the call signs failed; the messages
  themselves appear nowhere. A record and no failure: the merged records become the
  buffer. The merged records are item dicts.
\<close>

theorem C3_classification:
  assumes "if south_code = [] then data_south = []
           else fetch_data fuel post_south south_code (Some south_code) = Some (Inr data_south)"
    and "if north_code = [] then data_north = []
         else fetch_data fuel post_north north_code (Some north_code) = Some (Inr data_north)"
  shows
   "let combined = records_of data_south @ records_of data_north;
        errors = failure_of south_label south_code data_south @
                 failure_of north_label north_code data_north
    in (combined = [] \<and> errors \<noteq> [] \<longrightarrow>
          task fuel post_south post_north south_code north_code old =
            Some \<lparr> status_text = status_failed, all_results = old,
                   result_list = Show_results [ErrorDict (py_join separator errors) None] \<rparr>) \<and>
       (combined = [] \<and> errors = [] \<longrightarrow>
          task fuel post_south post_north south_code north_code old =
            Some \<lparr> status_text = status_no_data, all_results = [],
                   result_list = Show_results [] \<rparr>) \<and>
       (combined \<noteq> [] \<and> errors \<noteq> [] \<longrightarrow>
          task fuel post_south post_north south_code north_code old =
            Some \<lparr> status_text =
                     status_done @ repr_int (int (length combined)) @ partial_suffix,
                   all_results = combined, result_list = Apply_filter \<rparr>) \<and>
       (combined \<noteq> [] \<and> errors = [] \<longrightarrow>
          task fuel post_south post_north south_code north_code old =
            Some \<lparr> status_text =
                     status_done @ repr_int (int (length combined)) @ plain_suffix,
                   all_results = combined, result_list = Apply_filter \<rparr>) \<and>
       list_all is_item combined"
  using gather_eq [OF assms] records_of_items [OF assms(1)] records_of_items [OF assms(2)]
  by (simp add: task_def finish_def Let_def)

lemma fetch_pages_numeral:
  "fetch_pages (numeral n) post qc p acc =
     (case page_step (post p) qc acc of
        Return r \<Rightarrow> Some r
      | Continue a \<Rightarrow> fetch_pages (pred_numeral n) post qc (p + 1) a)"
  by (simp add: numeral_eq_Suc)

lemma fetch_data_total_3:
  "fetch_data 3 post_total_3 c (Some c) =
     Some (Inr [ItemDict (row_item (Some c) []), ItemDict (row_item (Some c) []),
                ItemDict (row_item (Some c) [])])"
  by (simp add: fetch_data_def run_code_def fetch_pages_numeral page_step_total_3)

lemma fetch_data_503:
  "fetch_data 3 post_503 c (Some c) = Some (Inr [ErrorDict (server_error @ ascii ''503'') None])"
  by (simp add: fetch_data_def fetch_pages_numeral post_503_def page_step_def repr_int_def
        digits10.simps ascii_def)

lemma fetch_data_html:
  "fetch_data 3 post_html c (Some c) =
     Some (Inr [ErrorDict (parse_error @ ascii ''Expecting value'') (Some (ascii ''<html>''))])"
  by (simp add: fetch_data_def fetch_pages_numeral post_html_def page_step_def py_slice_def ascii_def)

lemma fetch_data_empty_object:
  "fetch_data 3 (\<lambda>page. ok_response (PDict [])) c (Some c) = Some (Inr [])"
  by (simp add: fetch_data_def fetch_pages_numeral ok_response_def page_step_def dict_get_def)

lemma repr_int_3: "repr_int 3 = ascii ''3''"
  by (simp add: repr_int_def digits10.simps ascii_def)

lemma code_nonempty: "ascii ''S1'' \<noteq> []" "ascii ''N1'' \<noteq> []"
  by (simp_all add: ascii_def)

lemma gather_partial_503:
  "gather 3 post_total_3 post_503 (ascii ''S1'') (ascii ''N1'') =
     Some (Inr ([ItemDict (row_item (Some (ascii ''S1'')) []),
                 ItemDict (row_item (Some (ascii ''S1'')) []),
                 ItemDict (row_item (Some (ascii ''S1'')) [])],
                [north_label @ ascii ''N1'' @ query_failed @ server_error @ ascii ''503'']))"
  by (simp add: gather_def query_one_def code_nonempty fetch_data_total_3 fetch_data_503
        collect_def)

lemma gather_partial_html:
  "gather 3 post_total_3 post_html (ascii ''S1'') (ascii ''N1'') =
     Some (Inr ([ItemDict (row_item (Some (ascii ''S1'')) []),
                 ItemDict (row_item (Some (ascii ''S1'')) []),
                 ItemDict (row_item (Some (ascii ''S1'')) [])],
                [north_label @ ascii ''N1'' @ query_failed @ parse_error @ ascii ''Expecting value'']))"
  by (simp add: gather_def query_one_def code_nonempty fetch_data_total_3 fetch_data_html
        collect_def)

text \<open>
  C3, as stated, fails in its third case: with records from the south and a failed north
  run the final state holds the records and a fixed notice, and it is the same state
  whether the north run failed with status 503 or with an undecodable body: the failure
  message is not passed on.
\<close>

theorem C3_failure_messages_dropped_counterexample:
  "task 3 post_total_3 post_503 (ascii ''S1'') (ascii ''N1'') [] =
     Some \<lparr> status_text = status_done @ ascii ''3'' @ partial_suffix,
            all_results = [ItemDict (row_item (Some (ascii ''S1'')) []),
                 ItemDict (row_item (Some (ascii ''S1'')) []),
                 ItemDict (row_item (Some (ascii ''S1'')) [])],
            result_list = Apply_filter \<rparr> \<and>
   task 3 post_total_3 post_html (ascii ''S1'') (ascii ''N1'') [] =
     task 3 post_total_3 post_503 (ascii ''S1'') (ascii ''N1'') []"
  by (simp add: task_def gather_partial_503 gather_partial_html finish_def repr_int_3)

text \<open>
  Witness for C3, one query for each of the four cases: both runs fail; both return
  nothing; the south returns three records and the north fails; the south alone is asked
  and returns three records.
\<close>

theorem C3_classification_witness:
  "task 3 post_html post_503 (ascii ''S1'') (ascii ''N1'') [] =
     Some \<lparr> status_text = status_failed, all_results = [],
            result_list = Show_results
              [ErrorDict (south_label @ ascii ''S1'' @ query_failed @ parse_error @
                          ascii ''Expecting value'' @ separator @
                          north_label @ ascii ''N1'' @ query_failed @ server_error @
                          ascii ''503'') None] \<rparr> \<and>
   task 3 (\<lambda>page. ok_response (PDict [])) (\<lambda>page. ok_response (PDict []))
        (ascii ''S1'') (ascii ''N1'') [] =
     Some \<lparr> status_text = status_no_data, all_results = [], result_list = Show_results [] \<rparr> \<and>
   task 3 post_total_3 post_503 (ascii ''S1'') (ascii ''N1'') [] =
     Some \<lparr> status_text = status_done @ ascii ''3'' @ partial_suffix,
            all_results = [ItemDict (row_item (Some (ascii ''S1'')) []),
                           ItemDict (row_item (Some (ascii ''S1'')) []),
                           ItemDict (row_item (Some (ascii ''S1'')) [])],
            result_list = Apply_filter \<rparr> \<and>
   task 3 post_total_3 post_total_3 (ascii ''S1'') [] [] =
     Some \<lparr> status_text = status_done @ ascii ''3'' @ plain_suffix,
            all_results = [ItemDict (row_item (Some (ascii ''S1'')) []),
                           ItemDict (row_item (Some (ascii ''S1'')) []),
                           ItemDict (row_item (Some (ascii ''S1'')) [])],
            result_list = Apply_filter \<rparr>"
proof (intro conjI)
  show "task 3 post_html post_503 (ascii ''S1'') (ascii ''N1'') [] =
     Some \<lparr> status_text = status_failed, all_results = [],
            result_list = Show_results
              [ErrorDict (south_label @ ascii ''S1'' @ query_failed @ parse_error @
                          ascii ''Expecting value'' @ separator @
                          north_label @ ascii ''N1'' @ query_failed @ server_error @
                          ascii ''503'') None] \<rparr>"
    using C3_classification
      [where fuel = 3 and post_south = post_html and post_north = post_503
         and south_code = "ascii ''S1''" and north_code = "ascii ''N1''" and old = "[]"
         and data_south = "[ErrorDict (parse_error @ ascii ''Expecting value'')
                                      (Some (ascii ''<html>''))]"
         and data_north = "[ErrorDict (server_error @ ascii ''503'') None]"]
    by (simp add: code_nonempty fetch_data_html fetch_data_503 records_of_def failure_of_def)
next
  show "task 3 (\<lambda>page. ok_response (PDict [])) (\<lambda>page. ok_response (PDict []))
        (ascii ''S1'') (ascii ''N1'') [] =
     Some \<lparr> status_text = status_no_data, all_results = [], result_list = Show_results [] \<rparr>"
    using C3_classification
      [where fuel = 3 and post_south = "\<lambda>page. ok_response (PDict [])"
         and post_north = "\<lambda>page. ok_response (PDict [])"
         and south_code = "ascii ''S1''" and north_code = "ascii ''N1''" and old = "[]"
         and data_south = "[]" and data_north = "[]"]
    by (simp add: code_nonempty fetch_data_empty_object records_of_def failure_of_def)
next
  show "task 3 post_total_3 post_503 (ascii ''S1'') (ascii ''N1'') [] =
     Some \<lparr> status_text = status_done @ ascii ''3'' @ partial_suffix,
            all_results = [ItemDict (row_item (Some (ascii ''S1'')) []),
                           ItemDict (row_item (Some (ascii ''S1'')) []),
                           ItemDict (row_item (Some (ascii ''S1'')) [])],
            result_list = Apply_filter \<rparr>"
    using C3_classification
      [where fuel = 3 and post_south = post_total_3 and post_north = post_503
         and south_code = "ascii ''S1''" and north_code = "ascii ''N1''" and old = "[]"
         and data_south = "[ItemDict (row_item (Some (ascii ''S1'')) []),
                            ItemDict (row_item (Some (ascii ''S1'')) []),
                            ItemDict (row_item (Some (ascii ''S1'')) [])]"
         and data_north = "[ErrorDict (server_error @ ascii ''503'') None]"]
    by (simp add: code_nonempty fetch_data_total_3 fetch_data_503 records_of_def
          failure_of_def repr_int_3)
next
  show "task 3 post_total_3 post_total_3 (ascii ''S1'') [] [] =
     Some \<lparr> status_text = status_done @ ascii ''3'' @ plain_suffix,
            all_results = [ItemDict (row_item (Some (ascii ''S1'')) []),
                           ItemDict (row_item (Some (ascii ''S1'')) []),
                           ItemDict (row_item (Some (ascii ''S1'')) [])],
            result_list = Apply_filter \<rparr>"
    using C3_classification
      [where fuel = 3 and post_south = post_total_3 and post_north = post_total_3
         and south_code = "ascii ''S1''" and north_code = "[]" and old = "[]"
         and data_south = "[ItemDict (row_item (Some (ascii ''S1'')) []),
                            ItemDict (row_item (Some (ascii ''S1'')) []),
                            ItemDict (row_item (Some (ascii ''S1'')) [])]"
         and data_north = "[]"]
    by (simp add: code_nonempty fetch_data_total_3 records_of_def failure_of_def repr_int_3)
qed

end
